theory Spec2Isabelle
  imports Main "HOL-Library.Sublist" "HOL-Library.AList"
begin

section \<open>Python values\<close>

text \<open>
  A Python \<open>str\<close> is carried as the bytes of its UTF-8 encoding and a \<open>bytes\<close> value as
  its bytes; both are \<open>string\<close>s, whose characters are bytes. Exceptions are values of
  \<open>error\<close>; every effectful function returns its outcome together with the state it
  leaves behind.
\<close>

type_synonym bytes = string

datatype error =
    FileExistsError
  | FileNotFoundError
  | NotADirectoryError
  | IsADirectoryError
  | ShutilError
  | UnicodeDecodeError
  | UnicodeEncodeError
  | UnboundLocalError
  | BadZipFile
  | ValueError
  | TypeError
  | AttributeError
  | GitlabError

text \<open>\<open>s.endswith(suf)\<close> and \<open>s.removesuffix(suf)\<close>.\<close>

definition endswith :: "string \<Rightarrow> string \<Rightarrow> bool" where
  "endswith s suf = (length suf \<le> length s \<and> drop (length s - length suf) s = suf)"

definition removesuffix :: "string \<Rightarrow> string \<Rightarrow> string" where
  "removesuffix s suf =
     (if suf \<noteq> [] \<and> endswith s suf then take (length s - length suf) s else s)"

text \<open>
  \<open>bytes.decode('utf-8')\<close> and \<open>str.encode('utf-8')\<close>. With a \<open>str\<close> carried as its
  UTF-8 bytes both are the identity where they succeed; decoding fails on bytes that
  are not well-formed UTF-8, encoding on a \<open>str\<close> that has no UTF-8 form (a lone
  surrogate, carried as its ill-formed three-byte sequence).
\<close>

definition cont_byte :: "nat \<Rightarrow> bool" where
  "cont_byte b = (128 \<le> b \<and> b < 192)"

fun utf8_ok :: "nat list \<Rightarrow> bool" where
  "utf8_ok [] = True"
| "utf8_ok (b0 # bs) =
     (if b0 < 128 then utf8_ok bs
      else if 194 \<le> b0 \<and> b0 < 224 then
        (case bs of b1 # r \<Rightarrow> cont_byte b1 \<and> utf8_ok r | _ \<Rightarrow> False)
      else if 224 \<le> b0 \<and> b0 < 240 then
        (case bs of
           b1 # b2 # r \<Rightarrow>
             cont_byte b1 \<and> cont_byte b2 \<and> (if b0 = 224 then 160 \<le> b1 else True) \<and>
             (if b0 = 237 then b1 < 160 else True) \<and> utf8_ok r
         | _ \<Rightarrow> False)
      else if 240 \<le> b0 \<and> b0 < 245 then
        (case bs of
           b1 # b2 # b3 # r \<Rightarrow>
             cont_byte b1 \<and> cont_byte b2 \<and> cont_byte b3 \<and>
             (if b0 = 240 then 144 \<le> b1 else True) \<and>
             (if b0 = 244 then b1 < 144 else True) \<and> utf8_ok r
         | _ \<Rightarrow> False)
      else False)"

definition valid_utf8 :: "string \<Rightarrow> bool" where
  "valid_utf8 s = utf8_ok (map of_char s)"

definition decode_utf8 :: "bytes \<Rightarrow> error + string" where
  "decode_utf8 b = (if valid_utf8 b then Inr b else Inl UnicodeDecodeError)"

definition encode_utf8 :: "string \<Rightarrow> error + bytes" where
  "encode_utf8 v = (if valid_utf8 v then Inr v else Inl UnicodeEncodeError)"

text \<open>
  \<open>str.strip()\<close> removes the characters for which \<open>str.isspace\<close> holds from both ends.
  They are listed here by their UTF-8 encodings: U+0009 to U+000D, U+001C to U+0020,
  U+0085, U+00A0, U+1680, U+2000 to U+200A, U+2028, U+2029, U+202F, U+205F, U+3000.
\<close>

definition whitespace :: "string list" where
  "whitespace =
     [[CHR 0x09], [CHR 0x0A], [CHR 0x0B], [CHR 0x0C], [CHR 0x0D], [CHR 0x1C], [CHR 0x1D],
      [CHR 0x1E], [CHR 0x1F], [CHR 0x20], [CHR 0xC2, CHR 0x85], [CHR 0xC2, CHR 0xA0],
      [CHR 0xE1, CHR 0x9A, CHR 0x80], [CHR 0xE2, CHR 0x80, CHR 0x80],
      [CHR 0xE2, CHR 0x80, CHR 0x81], [CHR 0xE2, CHR 0x80, CHR 0x82],
      [CHR 0xE2, CHR 0x80, CHR 0x83], [CHR 0xE2, CHR 0x80, CHR 0x84],
      [CHR 0xE2, CHR 0x80, CHR 0x85], [CHR 0xE2, CHR 0x80, CHR 0x86],
      [CHR 0xE2, CHR 0x80, CHR 0x87], [CHR 0xE2, CHR 0x80, CHR 0x88],
      [CHR 0xE2, CHR 0x80, CHR 0x89], [CHR 0xE2, CHR 0x80, CHR 0x8A],
      [CHR 0xE2, CHR 0x80, CHR 0xA8], [CHR 0xE2, CHR 0x80, CHR 0xA9],
      [CHR 0xE2, CHR 0x80, CHR 0xAF], [CHR 0xE2, CHR 0x81, CHR 0x9F],
      [CHR 0xE3, CHR 0x80, CHR 0x80]]"

function strip_front :: "string list \<Rightarrow> string \<Rightarrow> string" where
  "strip_front ws s =
     (case find (\<lambda>w. w \<noteq> [] \<and> prefix w s) ws of
        None \<Rightarrow> s
      | Some w \<Rightarrow> strip_front ws (drop (length w) s))"
  by pat_completeness auto
termination
proof (relation "measure (\<lambda>(ws, s). length s)")
  show "wf (measure (\<lambda>(ws, s). length s))" by simp
next
  fix ws :: "string list" and s w :: string
  assume "find (\<lambda>w. w \<noteq> [] \<and> prefix w s) ws = Some w"
  then have "w \<noteq> []" and "prefix w s"
    by (auto simp: find_Some_iff)
  then have "s \<noteq> []" by auto
  with \<open>w \<noteq> []\<close> show "((ws, drop (length w) s), (ws, s)) \<in> measure (\<lambda>(ws, s). length s)"
    by simp
qed

declare strip_front.simps [simp del]

definition strip :: "string \<Rightarrow> string" where
  "strip s = rev (strip_front (map rev whitespace) (rev (strip_front whitespace s)))"

text \<open>An f-string renders \<open>None\<close> as the text \<open>None\<close>.\<close>

definition pystr :: "string option \<Rightarrow> string" where
  "pystr v = (case v of None \<Rightarrow> ''None'' | Some t \<Rightarrow> t)"

section \<open>pathlib\<close>

text \<open>
  A pure POSIX path: whether it is anchored at the root, and its components. Parsing a
  string splits at the separator and drops empty and \<open>.\<close> components; \<open>..\<close> is kept as
  a component and is not interpreted. Joining with an absolute path yields that path.
\<close>

datatype path = Path (absolute: bool) (parts: "string list")

fun split_sep :: "string \<Rightarrow> string list" where
  "split_sep [] = [[]]"
| "split_sep (c # cs) =
     (if c = CHR ''/'' then [] # split_sep cs
      else (case split_sep cs of [] \<Rightarrow> [[c]] | w # ws \<Rightarrow> (c # w) # ws))"

definition to_path :: "string \<Rightarrow> path" where
  "to_path s =
     Path (case s of [] \<Rightarrow> False | c # _ \<Rightarrow> c = CHR ''/'')
          (filter (\<lambda>w. w \<noteq> [] \<and> w \<noteq> ''.'') (split_sep s))"

definition joinpath :: "path \<Rightarrow> path \<Rightarrow> path" where
  "joinpath p q = (if absolute q then q else Path (absolute p) (parts p @ parts q))"

fun join_sep :: "string list \<Rightarrow> string" where
  "join_sep [] = []"
| "join_sep [w] = w"
| "join_sep (w # ws) = w @ ''/'' @ join_sep ws"

definition str_of_path :: "path \<Rightarrow> string" where
  "str_of_path p =
     (if absolute p then ''/'' @ join_sep (parts p)
      else if parts p = [] then ''.'' else join_sep (parts p))"

definition path_name :: "path \<Rightarrow> string" where
  "path_name p = (if parts p = [] then [] else last (parts p))"

definition path_parent :: "path \<Rightarrow> path" where
  "path_parent p = Path (absolute p) (butlast (parts p))"

section \<open>The file system and the process state\<close>

text \<open>
  The disk is an association list from absolute component lists to nodes; its order is
  the order in which a directory scan reports entries. The root directory always exists.
  Permissions, symbolic links and concurrent processes are not modelled.
\<close>

datatype node = File bytes | Dir

type_synonym filesystem = "(string list \<times> node) list"

definition lookup :: "filesystem \<Rightarrow> string list \<Rightarrow> node option" where
  "lookup d p = (if p = [] then Some Dir else map_of d p)"

definition put :: "filesystem \<Rightarrow> string list \<Rightarrow> node \<Rightarrow> filesystem" where
  "put d p n = AList.update p n d"

datatype ci_call =
    JobsGet "string option"
  | PipelinesGet string
  | PipelineJobsList string
  | JobArtifacts string

text \<open>
  Which byte strings are ZIP archives, and the entries each of them holds in order, is
  given by the table \<open>archives\<close>; decompression is not modelled further. Temporary
  files and directories are made below \<open>tmp_dir\<close>, their names numbered by \<open>tmp_seq\<close>.
  No operation changes \<open>archives\<close>, \<open>tmp_dir\<close> or \<open>cwd\<close>.
\<close>

datatype zip_info = ZipInfo (filename: string) (content: bytes)

record state =
  disk :: filesystem
  cwd :: "string list"
  ci_calls :: "ci_call list"
  tmp_seq :: nat
  tmp_dir :: "string list"
  archives :: "(bytes \<times> zip_info list) list"

type_synonym 'a io = "state \<Rightarrow> (error + 'a) \<times> state"

definition return :: "'a \<Rightarrow> 'a io" where
  "return x = (\<lambda>s. (Inr x, s))"

definition raise :: "error \<Rightarrow> 'a io" where
  "raise e = (\<lambda>s. (Inl e, s))"

definition bind :: "'a io \<Rightarrow> ('a \<Rightarrow> 'b io) \<Rightarrow> 'b io" where
  "bind m f = (\<lambda>s. case m s of (Inl e, s') \<Rightarrow> (Inl e, s') | (Inr x, s') \<Rightarrow> f x s')"

definition abs_parts :: "state \<Rightarrow> path \<Rightarrow> string list" where
  "abs_parts s p = (if absolute p then parts p else cwd s @ parts p)"

definition fs_op :: "(filesystem \<Rightarrow> error + filesystem) \<Rightarrow> unit io" where
  "fs_op f = (\<lambda>s. case f (disk s) of Inl e \<Rightarrow> (Inl e, s)
                                    | Inr d \<Rightarrow> (Inr (), s\<lparr>disk := d\<rparr>))"

text \<open>
  \<open>Path.mkdir(parents=True, exist_ok=True)\<close>: every missing directory on the way is
  created; a file on the way, or at the path itself, is an error.
\<close>

fun mkdir_from :: "string list \<Rightarrow> string list \<Rightarrow> filesystem \<Rightarrow> error + filesystem" where
  "mkdir_from pre [] d = Inr d"
| "mkdir_from pre (x # xs) d =
     (case lookup d (pre @ [x]) of
        Some Dir \<Rightarrow> mkdir_from (pre @ [x]) xs d
      | Some (File _) \<Rightarrow> Inl (if xs = [] then FileExistsError else NotADirectoryError)
      | None \<Rightarrow> mkdir_from (pre @ [x]) xs (put d (pre @ [x]) Dir))"

definition mkdir_parents :: "string list \<Rightarrow> filesystem \<Rightarrow> error + filesystem" where
  "mkdir_parents p d = mkdir_from [] p d"

text \<open>\<open>Path.write_bytes\<close>: the parent must be a directory and the path must not be one.\<close>

definition write_file :: "string list \<Rightarrow> bytes \<Rightarrow> filesystem \<Rightarrow> error + filesystem" where
  "write_file p b d =
     (if p = [] then Inl IsADirectoryError
      else case lookup d (butlast p) of
             None \<Rightarrow> Inl FileNotFoundError
           | Some (File _) \<Rightarrow> Inl NotADirectoryError
           | Some Dir \<Rightarrow>
               (case lookup d p of
                  Some Dir \<Rightarrow> Inl IsADirectoryError
                | _ \<Rightarrow> Inr (put d p (File b))))"

definition path_mkdir :: "path \<Rightarrow> unit io" where
  "path_mkdir p = (\<lambda>s. fs_op (mkdir_parents (abs_parts s p)) s)"

definition path_write_bytes :: "path \<Rightarrow> bytes \<Rightarrow> unit io" where
  "path_write_bytes p b = (\<lambda>s. fs_op (write_file (abs_parts s p) b) s)"

definition path_exists :: "path \<Rightarrow> bool io" where
  "path_exists p = (\<lambda>s. (Inr (lookup (disk s) (abs_parts s p) \<noteq> None), s))"

definition path_read_bytes :: "path \<Rightarrow> bytes io" where
  "path_read_bytes p =
     (\<lambda>s. case lookup (disk s) (abs_parts s p) of
             Some (File b) \<Rightarrow> (Inr b, s)
           | Some Dir \<Rightarrow> (Inl IsADirectoryError, s)
           | None \<Rightarrow> (Inl FileNotFoundError, s))"

text \<open>
  \<open>shutil.copytree(src, dst, dirs_exist_ok=True)\<close>. The source must be a directory and
  the destination is created with its parents. Every entry below the source, as the
  disk holds it when the copy starts, is then copied to the same relative place below
  the destination: a directory is created there, a file is written there, or inside
  the directory that already has that name. A failure of one entry is remembered and
  the remaining entries are still copied; the call raises at the end if any failed.
\<close>

definition copy_entry ::
  "string list \<Rightarrow> string list \<Rightarrow> string list \<times> node \<Rightarrow> bool \<times> filesystem \<Rightarrow> bool \<times> filesystem"
where
  "copy_entry src dst e acc =
     (let t = dst @ drop (length src) (fst e); d = snd acc in
      case snd e of
        Dir \<Rightarrow> (case mkdir_parents t d of Inl _ \<Rightarrow> (True, d) | Inr d' \<Rightarrow> (fst acc, d'))
      | File b \<Rightarrow>
          (case mkdir_parents (butlast t) d of
             Inl _ \<Rightarrow> (True, d)
           | Inr d1 \<Rightarrow>
               (case write_file (if lookup d1 t = Some Dir then t @ [last (fst e)] else t) b d1 of
                  Inl _ \<Rightarrow> (True, d1)
                | Inr d2 \<Rightarrow> (fst acc, d2))))"

definition copytree :: "string list \<Rightarrow> string list \<Rightarrow> filesystem \<Rightarrow> (error + unit) \<times> filesystem" where
  "copytree src dst d =
     (case lookup d src of
        None \<Rightarrow> (Inl FileNotFoundError, d)
      | Some (File _) \<Rightarrow> (Inl NotADirectoryError, d)
      | Some Dir \<Rightarrow>
          (case mkdir_parents dst d of
             Inl e \<Rightarrow> (Inl e, d)
           | Inr d0 \<Rightarrow>
               (let r = foldl (\<lambda>acc e. copy_entry src dst e acc) (False, d0)
                          (filter (\<lambda>e. strict_prefix src (fst e)) d)
                in if fst r then (Inl ShutilError, snd r) else (Inr (), snd r))))"

definition shutil_copytree :: "path \<Rightarrow> path \<Rightarrow> unit io" where
  "shutil_copytree src dst =
     (\<lambda>s. case copytree (abs_parts s src) (abs_parts s dst) (disk s) of
             (r, d) \<Rightarrow> (r, s\<lparr>disk := d\<rparr>))"

section \<open>PathStore\<close>

datatype PathStore = PathStore (store_path: path)

definition PathStore_init :: "string \<Rightarrow> PathStore" where
  "PathStore_init p = PathStore (to_path p)"

definition PathStore_add :: "PathStore \<Rightarrow> string \<Rightarrow> bytes \<Rightarrow> unit io" where
  "PathStore_add self key data =
     (let file_path = joinpath (store_path self) (to_path key) in
      bind (path_mkdir (path_parent file_path))
           (\<lambda>_. path_write_bytes file_path data))"

definition PathStore_get :: "PathStore \<Rightarrow> string \<Rightarrow> bytes option io" where
  "PathStore_get self key =
     (let file_path = joinpath (store_path self) (to_path key) in
      bind (path_exists file_path)
           (\<lambda>there. if there then bind (path_read_bytes file_path) (\<lambda>b. return (Some b))
                    else return None))"

definition PathStore_add_directory :: "PathStore \<Rightarrow> string \<Rightarrow> path \<Rightarrow> unit io" where
  "PathStore_add_directory self key src =
     (let dst = joinpath (store_path self) (to_path key) in
      bind (path_mkdir dst) (\<lambda>_. shutil_copytree src dst))"

definition PathStore_get_directory :: "PathStore \<Rightarrow> string \<Rightarrow> path option io" where
  "PathStore_get_directory self key =
     (let dir_path = joinpath (store_path self) (to_path key) in
      bind (path_exists dir_path)
           (\<lambda>there. if there then return (Some dir_path) else return None))"

section \<open>SymbolStore\<close>

text \<open>A SymbolStore is a PathStore whose \<open>add\<close> and \<open>get\<close> take a version.\<close>

definition SymbolStore_add :: "PathStore \<Rightarrow> string \<Rightarrow> string \<Rightarrow> path io" where
  "SymbolStore_add self version pth =
     (let dst = joinpath (joinpath (store_path self) (to_path version)) (to_path ''symbols'') in
      bind (PathStore_add_directory self (str_of_path dst) (to_path pth))
           (\<lambda>_. return dst))"

definition SymbolStore_get :: "PathStore \<Rightarrow> string \<Rightarrow> path option io" where
  "SymbolStore_get self version =
     (let p = joinpath (joinpath (store_path self) (to_path version)) (to_path ''symbols'') in
      PathStore_get_directory self (str_of_path p))"

section \<open>Artifacts\<close>

text \<open>
  A handle holds its store, the project and job it was made for, and the cached
  \<open>_version\<close> and \<open>_pipeline\<close>. The attribute \<open>_project\<close> is both the project given to
  the constructor and the cache of the \<open>project\<close> text property. A job is a \<open>str\<close> or
  \<open>None\<close>. Methods that assign to the handle return the handle they leave.
\<close>

record Artifacts =
  a_path_store :: PathStore
  a_project :: string
  a_job :: "string option"
  a_version :: "string option"
  a_pipeline :: "string option"

datatype attr = Version | Pipeline | Project

definition attr_name :: "attr \<Rightarrow> string" where
  "attr_name a = (case a of Version \<Rightarrow> ''version'' | Pipeline \<Rightarrow> ''pipeline'' | Project \<Rightarrow> ''project'')"

definition getattr :: "Artifacts \<Rightarrow> attr \<Rightarrow> string option" where
  "getattr self a =
     (case a of Version \<Rightarrow> a_version self | Pipeline \<Rightarrow> a_pipeline self
              | Project \<Rightarrow> Some (a_project self))"

definition setattr :: "Artifacts \<Rightarrow> attr \<Rightarrow> string \<Rightarrow> Artifacts" where
  "setattr self a v =
     (case a of Version \<Rightarrow> self\<lparr>a_version := Some v\<rparr>
              | Pipeline \<Rightarrow> self\<lparr>a_pipeline := Some v\<rparr>
              | Project \<Rightarrow> self\<lparr>a_project := v\<rparr>)"

definition Artifacts_init :: "string \<Rightarrow> string option \<Rightarrow> PathStore \<Rightarrow> Artifacts" where
  "Artifacts_init project job path_store =
     \<lparr>a_path_store = path_store, a_project = project, a_job = job,
      a_version = None, a_pipeline = None\<rparr>"

definition makekey :: "string \<Rightarrow> string option \<Rightarrow> string" where
  "makekey project job = project @ ''/'' @ pystr job"

definition Artifacts_key :: "Artifacts \<Rightarrow> string" where
  "Artifacts_key self = makekey (a_project self) (a_job self)"

definition Artifacts_get :: "Artifacts \<Rightarrow> path option io" where
  "Artifacts_get self = PathStore_get_directory (a_path_store self) (Artifacts_key self @ ''/artifacts'')"

definition Artifacts_add :: "Artifacts \<Rightarrow> string \<Rightarrow> unit io" where
  "Artifacts_add self pth =
     PathStore_add_directory (a_path_store self) (Artifacts_key self @ ''/artifacts'') (to_path pth)"

definition lift_result :: "error + 'a \<Rightarrow> 'a io" where
  "lift_result r = (case r of Inl e \<Rightarrow> raise e | Inr x \<Rightarrow> return x)"

definition get_text_property :: "Artifacts \<Rightarrow> attr \<Rightarrow> (string option \<times> Artifacts) io" where
  "get_text_property self a =
     (case getattr self a of
        Some v \<Rightarrow> return (Some v, self)
      | None \<Rightarrow>
          bind (PathStore_get (a_path_store self) (Artifacts_key self @ ''/'' @ attr_name a @ ''.txt''))
            (\<lambda>data. case data of
                 None \<Rightarrow> return (None, self)
               | Some b \<Rightarrow>
                   if b = [] then return (None, self)
                   else bind (lift_result (decode_utf8 b))
                          (\<lambda>t. let v = strip t in return (Some v, setattr self a v))))"

definition set_text_property :: "Artifacts \<Rightarrow> attr \<Rightarrow> string \<Rightarrow> Artifacts io" where
  "set_text_property self a v =
     bind (lift_result (encode_utf8 v))
       (\<lambda>data. bind (PathStore_add (a_path_store self)
                       (Artifacts_key self @ ''/'' @ attr_name a @ ''.txt'') data)
                 (\<lambda>_. return (setattr self a v)))"

definition Artifacts_version :: "Artifacts \<Rightarrow> (string option \<times> Artifacts) io" where
  "Artifacts_version self = get_text_property self Version"

definition Artifacts_set_version :: "Artifacts \<Rightarrow> string \<Rightarrow> Artifacts io" where
  "Artifacts_set_version self v = set_text_property self Version v"

definition Artifacts_pipeline :: "Artifacts \<Rightarrow> (string option \<times> Artifacts) io" where
  "Artifacts_pipeline self = get_text_property self Pipeline"

definition Artifacts_set_pipeline :: "Artifacts \<Rightarrow> string \<Rightarrow> Artifacts io" where
  "Artifacts_set_pipeline self v = set_text_property self Pipeline v"

definition Artifacts_project :: "Artifacts \<Rightarrow> (string option \<times> Artifacts) io" where
  "Artifacts_project self = get_text_property self Project"

definition Artifacts_set_project :: "Artifacts \<Rightarrow> string \<Rightarrow> Artifacts io" where
  "Artifacts_set_project self v = set_text_property self Project v"

section \<open>ArtifactStore\<close>

datatype ArtifactStore = ArtifactStore (path_store: PathStore)

definition ArtifactStore_init :: "path \<Rightarrow> ArtifactStore" where
  "ArtifactStore_init p = ArtifactStore (PathStore p)"

text \<open>The optional \<open>artifacts_path\<close> is used when it is true: given and not empty.\<close>

definition ArtifactStore_add ::
  "ArtifactStore \<Rightarrow> string \<Rightarrow> string option \<Rightarrow> string option \<Rightarrow> Artifacts io" where
  "ArtifactStore_add self project_id job_id artifacts_path =
     (let artifacts = Artifacts_init project_id job_id (path_store self) in
      case artifacts_path of
        None \<Rightarrow> return artifacts
      | Some pth \<Rightarrow>
          if pth = [] then return artifacts
          else bind (Artifacts_add artifacts pth) (\<lambda>_. return artifacts))"

definition ArtifactStore_get ::
  "ArtifactStore \<Rightarrow> string \<Rightarrow> string option \<Rightarrow> Artifacts option io" where
  "ArtifactStore_get self project_id job_id =
     (let key = makekey project_id job_id in
      bind (PathStore_get_directory (path_store self) key)
        (\<lambda>found. case found of
             Some _ \<Rightarrow> return (Some (Artifacts_init project_id job_id (path_store self)))
           | None \<Rightarrow> return None))"

section \<open>tempfile, zipfile and glob\<close>

text \<open>
  \<open>tempfile.mkdtemp\<close> tries candidate names until one is free, at most \<open>TMP_MAX\<close> times,
  and creates the directory (the candidates here are \<open>tmp_\<close>, \<open>tmp__\<close> and so on);
  \<open>TemporaryDirectory\<close> removes it with everything below
  when the \<open>with\<close> block is left, also by an exception.
\<close>

definition TMP_MAX :: nat where
  "TMP_MAX = 10000"

definition tmp_candidate :: "state \<Rightarrow> string" where
  "tmp_candidate s =
     str_of_path (Path True (tmp_dir s @ [''tmp'' @ replicate (Suc (tmp_seq s)) CHR ''_'']))"

fun mkdtemp_loop :: "nat \<Rightarrow> string io" where
  "mkdtemp_loop 0 s = (Inl FileExistsError, s)"
| "mkdtemp_loop (Suc n) s =
     (let name = tmp_candidate s; p = parts (to_path name); s1 = s\<lparr>tmp_seq := tmp_seq s + 1\<rparr> in
      case lookup (disk s) p of
        Some _ \<Rightarrow> mkdtemp_loop n s1
      | None \<Rightarrow>
          (case lookup (disk s) (butlast p) of
             Some Dir \<Rightarrow> (Inr name, s1\<lparr>disk := put (disk s) p Dir\<rparr>)
           | Some (File _) \<Rightarrow> (Inl NotADirectoryError, s1)
           | None \<Rightarrow> (Inl FileNotFoundError, s1)))"

definition mkdtemp :: "string io" where
  "mkdtemp = mkdtemp_loop TMP_MAX"

definition rmtree :: "string list \<Rightarrow> filesystem \<Rightarrow> filesystem" where
  "rmtree p d = filter (\<lambda>e. \<not> prefix p (fst e)) d"

definition TemporaryDirectory :: "(string \<Rightarrow> 'a io) \<Rightarrow> 'a io" where
  "TemporaryDirectory body =
     (\<lambda>s. case mkdtemp s of
             (Inl e, s1) \<Rightarrow> (Inl e, s1)
           | (Inr name, s1) \<Rightarrow>
               (case body name s1 of
                  (r, s2) \<Rightarrow> (r, s2\<lparr>disk := rmtree (parts (to_path name)) (disk s2)\<rparr>)))"

text \<open>\<open>tempfile.mkstemp\<close> creates an empty file in the same way.\<close>

fun mkstemp_loop :: "nat \<Rightarrow> string io" where
  "mkstemp_loop 0 s = (Inl FileExistsError, s)"
| "mkstemp_loop (Suc n) s =
     (let name = tmp_candidate s; p = parts (to_path name); s1 = s\<lparr>tmp_seq := tmp_seq s + 1\<rparr> in
      case lookup (disk s) p of
        Some _ \<Rightarrow> mkstemp_loop n s1
      | None \<Rightarrow>
          (case lookup (disk s) (butlast p) of
             Some Dir \<Rightarrow> (Inr name, s1\<lparr>disk := put (disk s) p (File [])\<rparr>)
           | Some (File _) \<Rightarrow> (Inl NotADirectoryError, s1)
           | None \<Rightarrow> (Inl FileNotFoundError, s1)))"

definition mkstemp :: "string io" where
  "mkstemp = mkstemp_loop TMP_MAX"

definition os_remove_if_exists :: "string \<Rightarrow> unit io" where
  "os_remove_if_exists name =
     (\<lambda>s. (Inr (), s\<lparr>disk := filter (\<lambda>e. fst e \<noteq> abs_parts s (to_path name)) (disk s)\<rparr>))"

definition try_finally :: "'a io \<Rightarrow> unit io \<Rightarrow> 'a io" where
  "try_finally body cleanup =
     (\<lambda>s. case body s of (r, s1) \<Rightarrow> (case cleanup s1 of (_, s2) \<Rightarrow> (r, s2)))"

text \<open>\<open>zipfile.ZipFile(path, "r")\<close>: the file is read and its bytes are taken apart.\<close>

definition ZipFile :: "path \<Rightarrow> zip_info list io" where
  "ZipFile zip_path =
     bind (path_read_bytes zip_path)
       (\<lambda>b. (\<lambda>s. case map_of (archives s) b of None \<Rightarrow> (Inl BadZipFile, s) | Some z \<Rightarrow> (Inr z, s)))"

text \<open>
  \<open>ZipFile.extract(member, path)\<close> for a member given as a \<open>ZipInfo\<close>: the member's name
  is split at the separator, empty, \<open>.\<close> and \<open>..\<close> parts are dropped, and what remains
  is appended to the target directory. Missing directories above the target are
  created. A member whose name ends with the separator is a directory; any other
  member is written as a file with the member's contents.
\<close>

definition arcname_parts :: "string \<Rightarrow> string list" where
  "arcname_parts n = filter (\<lambda>w. w \<noteq> [] \<and> w \<noteq> ''.'' \<and> w \<noteq> ''..'') (split_sep n)"

definition zip_is_dir :: "zip_info \<Rightarrow> bool" where
  "zip_is_dir m = endswith (filename m) ''/''"

definition extract_member :: "zip_info \<Rightarrow> string list \<Rightarrow> filesystem \<Rightarrow> error + filesystem" where
  "extract_member m out d =
     (let arc = arcname_parts (filename m) in
      if arc = [] \<and> \<not> zip_is_dir m then Inl ValueError
      else
        let target = out @ arc; upperdirs = butlast target in
        case (if lookup d upperdirs = None then mkdir_parents upperdirs d else Inr d) of
          Inl e \<Rightarrow> Inl e
        | Inr d1 \<Rightarrow>
            if zip_is_dir m then
              (case lookup d1 target of
                 Some Dir \<Rightarrow> Inr d1
               | Some (File _) \<Rightarrow> Inl FileExistsError
               | None \<Rightarrow> Inr (put d1 target Dir))
            else write_file target (content m) d1)"

definition ZipFile_extract :: "zip_info \<Rightarrow> string \<Rightarrow> unit io" where
  "ZipFile_extract m pth = (\<lambda>s. fs_op (extract_member m (abs_parts s (to_path pth))) s)"

text \<open>
  \<open>ZipFile.extractall(path)\<close> goes through the names of the archive and extracts, for
  each name, the member that \<open>getinfo\<close> finds for it: the last one with that name.
\<close>

definition getinfo :: "zip_info list \<Rightarrow> string \<Rightarrow> zip_info" where
  "getinfo z n = last (filter (\<lambda>m. filename m = n) z)"

fun extract_each :: "zip_info list \<Rightarrow> string \<Rightarrow> unit io" where
  "extract_each [] pth = return ()"
| "extract_each (m # ms) pth = bind (ZipFile_extract m pth) (\<lambda>_. extract_each ms pth)"

definition ZipFile_extractall :: "zip_info list \<Rightarrow> string \<Rightarrow> unit io" where
  "ZipFile_extractall z pth = extract_each (map (\<lambda>m. getinfo z (filename m)) z) pth"

text \<open>
  \<open>glob.glob(f"{output_dir}/**/<pattern>", recursive=True)\<close> for a pattern \<open>*<suffix>\<close>:
  every file or directory at any depth below the directory whose name ends with the
  suffix, hidden names and everything inside hidden directories left out, in the order
  of the disk. The directory given is taken literally (no wildcard in it is expanded).
\<close>

definition hidden :: "string \<Rightarrow> bool" where
  "hidden n = (case n of [] \<Rightarrow> False | c # _ \<Rightarrow> c = CHR ''.'')"

definition below_dirs :: "filesystem \<Rightarrow> string list \<Rightarrow> string list \<Rightarrow> bool" where
  "below_dirs d base rel = list_all (\<lambda>i. lookup d (base @ take i rel) = Some Dir) [0..<length rel]"

definition glob_suffix :: "string \<Rightarrow> string \<Rightarrow> string list io" where
  "glob_suffix output_dir suf =
     (\<lambda>s. let base = abs_parts s (to_path output_dir) in
        (Inr (map (\<lambda>e. output_dir @ ''/'' @ join_sep (drop (length base) (fst e)))
               (filter (\<lambda>e. strict_prefix base (fst e) \<and>
                            (let rel = drop (length base) (fst e) in
                               below_dirs (disk s) base rel \<and> list_all (\<lambda>n. \<not> hidden n) rel \<and>
                               endswith (last rel) suf))
                  (disk s))), s))"

definition path_or_None :: "path option \<Rightarrow> string" where
  "path_or_None p = (case p of None \<Rightarrow> ''None'' | Some q \<Rightarrow> str_of_path q)"

definition find_dmp_files :: "path option \<Rightarrow> string list io" where
  "find_dmp_files output_dir = glob_suffix (path_or_None output_dir) ''.dmp''"

definition find_debug_zip :: "path option \<Rightarrow> string list io" where
  "find_debug_zip output_dir = glob_suffix (path_or_None output_dir) ''.debug.zip''"

definition find_symbol_files :: "path option \<Rightarrow> string list io" where
  "find_symbol_files output_dir = glob_suffix (path_or_None output_dir) ''.exe.debug''"

section \<open>extract_agent_symbols\<close>

fun extract_symbols_loop :: "zip_info list \<Rightarrow> string \<Rightarrow> unit io" where
  "extract_symbols_loop [] output_dir = return ()"
| "extract_symbols_loop (info # infos) output_dir =
     (if endswith (filename info) ''.exe.debug'' then
        bind (ZipFile_extract (ZipInfo (path_name (to_path (filename info))) (content info)) output_dir)
          (\<lambda>_. extract_symbols_loop infos output_dir)
      else extract_symbols_loop infos output_dir)"

definition extract_agent_symbols :: "path \<Rightarrow> string \<Rightarrow> unit io" where
  "extract_agent_symbols zip_path output_dir =
     bind (ZipFile zip_path) (\<lambda>zip_ref. extract_symbols_loop zip_ref output_dir)"

section \<open>The CI provider\<close>

text \<open>
  What the provider answers is given by the project; every request is recorded in
  \<open>ci_calls\<close>. Identifiers are carried in their decimal text, as \<open>str\<close> renders them.
\<close>

record Job =
  j_id :: string
  j_name :: string
  j_pipeline_id :: string
  j_artifacts :: "error + bytes"

record Pipeline =
  pl_id :: string
  pl_jobs :: "error + Job list"

record Project =
  jobs :: "string option \<Rightarrow> error + Job"
  pipelines :: "string \<Rightarrow> error + Pipeline"

definition ci_request :: "ci_call \<Rightarrow> error + 'a \<Rightarrow> 'a io" where
  "ci_request c r = (\<lambda>s. (r, s\<lparr>ci_calls := ci_calls s @ [c]\<rparr>))"

definition jobs_get :: "Project \<Rightarrow> string option \<Rightarrow> Job io" where
  "jobs_get proj i = ci_request (JobsGet i) (jobs proj i)"

definition pipelines_get :: "Project \<Rightarrow> string \<Rightarrow> Pipeline io" where
  "pipelines_get proj i = ci_request (PipelinesGet i) (pipelines proj i)"

definition pipeline_jobs_list :: "Pipeline \<Rightarrow> Job list io" where
  "pipeline_jobs_list pl = ci_request (PipelineJobsList (pl_id pl)) (pl_jobs pl)"

definition job_artifacts_download :: "Job \<Rightarrow> bytes io" where
  "job_artifacts_download j = ci_request (JobArtifacts (j_id j)) (j_artifacts j)"

definition download_job_artifacts :: "Project \<Rightarrow> string option \<Rightarrow> string \<Rightarrow> unit io" where
  "download_job_artifacts proj job_id output_dir =
     bind (jobs_get proj job_id)
       (\<lambda>job. bind mkstemp
          (\<lambda>tmp_path.
             try_finally
               (bind (job_artifacts_download job)
                  (\<lambda>data. bind (path_write_bytes (to_path tmp_path) data)
                     (\<lambda>_. bind (ZipFile (to_path tmp_path))
                        (\<lambda>zip_ref. ZipFile_extractall zip_ref output_dir))))
               (os_remove_if_exists tmp_path)))"

definition get_package_job_id :: "Project \<Rightarrow> string option \<Rightarrow> string option \<Rightarrow> string option io" where
  "get_package_job_id proj job_id package_job_name =
     (let package_job_name =
            (case package_job_name of None \<Rightarrow> ''windows_msi_and_bosh_zip_x64-a7'' | Some n \<Rightarrow> n) in
      bind (jobs_get proj job_id)
        (\<lambda>job. bind (pipelines_get proj (j_pipeline_id job))
           (\<lambda>pl. bind (pipeline_jobs_list pl)
              (\<lambda>js. return (map_option j_id (find (\<lambda>j. j_name j = package_job_name) js))))))"

section \<open>Fetching artifacts and resolving symbols\<close>

definition add_gitlab_job_artifacts_to_artifact_store ::
  "ArtifactStore \<Rightarrow> Project \<Rightarrow> string option \<Rightarrow> Artifacts io" where
  "add_gitlab_job_artifacts_to_artifact_store artifact_store proj job_id =
     TemporaryDirectory
       (\<lambda>temp_dir. bind (download_job_artifacts proj job_id temp_dir)
          (\<lambda>_. ArtifactStore_add artifact_store ''datadog-agent'' (Some (pystr job_id)) (Some temp_dir)))"

definition get_or_fetch_artifacts :: "ArtifactStore \<Rightarrow> Project \<Rightarrow> string option \<Rightarrow> Artifacts io" where
  "get_or_fetch_artifacts artifact_store proj job_id =
     bind (ArtifactStore_get artifact_store ''datadog-agent'' job_id)
       (\<lambda>artifacts. case artifacts of
            Some a \<Rightarrow> return a
          | None \<Rightarrow> add_gitlab_job_artifacts_to_artifact_store artifact_store proj job_id)"

record CrashAnalyzerCLI =
  cli_env :: path
  cli_symbol_store :: PathStore
  cli_artifact_store :: ArtifactStore
  cli_active_project :: "Project option"

definition CrashAnalyzerCLI_init :: "path \<Rightarrow> CrashAnalyzerCLI" where
  "CrashAnalyzerCLI_init e =
     \<lparr>cli_env = e, cli_symbol_store = PathStore (joinpath e (to_path ''symbols'')),
      cli_artifact_store = ArtifactStore_init (joinpath e (to_path ''artifacts'')),
      cli_active_project = None\<rparr>"

definition select_project :: "CrashAnalyzerCLI \<Rightarrow> Project \<Rightarrow> CrashAnalyzerCLI" where
  "select_project cli proj = cli\<lparr>cli_active_project := Some proj\<rparr>"

definition get_active_project :: "CrashAnalyzerCLI \<Rightarrow> Project io" where
  "get_active_project cli = (case cli_active_project cli of None \<Rightarrow> raise AttributeError | Some p \<Rightarrow> return p)"

text \<open>
  The last part of \<open>get_symbols_for_job_id\<close>, from the lookup in the symbol store on.
  The local variables \<open>version\<close> and \<open>debug_zip\<close> are passed as options: \<open>None\<close> is a
  variable that no statement has assigned, and reading it raises.
\<close>

definition resolve_symbols :: "CrashAnalyzerCLI \<Rightarrow> string option \<Rightarrow> path option \<Rightarrow> path io" where
  "resolve_symbols cli version debug_zip =
     (case version of
        None \<Rightarrow> raise UnboundLocalError
      | Some v \<Rightarrow>
          bind (SymbolStore_get (cli_symbol_store cli) v)
            (\<lambda>syms. case syms of
                 Some p \<Rightarrow> return p
               | None \<Rightarrow>
                   TemporaryDirectory
                     (\<lambda>tmp_dir. case debug_zip of
                          None \<Rightarrow> raise UnboundLocalError
                        | Some z \<Rightarrow>
                            bind (extract_agent_symbols z tmp_dir)
                              (\<lambda>_. SymbolStore_add (cli_symbol_store cli) v tmp_dir))))"

text \<open>The \<open>else\<close> branch: the package job of the pipeline supplies the version.\<close>

definition symbols_from_package_job ::
  "CrashAnalyzerCLI \<Rightarrow> string option \<Rightarrow> Artifacts option \<Rightarrow> path io" where
  "symbols_from_package_job cli job_id artifact =
     bind (get_active_project cli)
       (\<lambda>proj. bind (get_package_job_id proj job_id None)
          (\<lambda>package_job_id. bind (get_active_project cli)
             (\<lambda>proj. bind (get_or_fetch_artifacts (cli_artifact_store cli) proj package_job_id)
                (\<lambda>package_artifacts. bind (Artifacts_get package_artifacts)
                   (\<lambda>dir. bind (find_debug_zip dir)
                      (\<lambda>zips. case zips of
                           [] \<Rightarrow> resolve_symbols cli None None
                         | z # _ \<Rightarrow>
                             (let debug_zip = to_path z;
                                  v = removesuffix (path_name debug_zip) ''.debug.zip'' in
                              bind (Artifacts_set_version package_artifacts v)
                                (\<lambda>_. bind (case artifact of
                                             None \<Rightarrow> ArtifactStore_add (cli_artifact_store cli)
                                                       ''datadog-agent'' job_id None
                                           | Some a \<Rightarrow> return a)
                                   (\<lambda>a. bind (Artifacts_set_version a v)
                                      (\<lambda>_. resolve_symbols cli (Some v) (Some debug_zip)))))))))))"

definition get_symbols_for_job_id :: "CrashAnalyzerCLI \<Rightarrow> string option \<Rightarrow> path io" where
  "get_symbols_for_job_id cli job_id =
     bind (ArtifactStore_get (cli_artifact_store cli) ''datadog-agent'' job_id)
       (\<lambda>artifact. case artifact of
            None \<Rightarrow> symbols_from_package_job cli job_id None
          | Some a \<Rightarrow>
              bind (Artifacts_version a)
                (\<lambda>(v, a1). case v of
                     None \<Rightarrow> symbols_from_package_job cli job_id (Some a1)
                   | Some t \<Rightarrow>
                       if t = [] then symbols_from_package_job cli job_id (Some a1)
                       else bind (Artifacts_version a1)
                              (\<lambda>(v2, a2). case v2 of
                                   None \<Rightarrow> raise TypeError
                                 | Some t2 \<Rightarrow> resolve_symbols cli (Some t2) None)))"

section \<open>Example states\<close>

definition demo_state :: state where
  "demo_state = \<lparr>disk = [], cwd = [''home''], ci_calls = [], tmp_seq = 0,
     tmp_dir = [''tmp''], archives = []\<rparr>"


text \<open>
  A session rooted at \<open>/e\<close>. The project answers for job \<open>1\<close>, whose pipeline \<open>9\<close>
  lists the jobs \<open>1\<close> and \<open>2\<close>; job \<open>2\<close> is the package job in \<open>demo_project\<close> and a
  job of another name in \<open>other_project\<close>.
\<close>

definition job1 :: Job where
  "job1 = \<lparr>j_id = ''1'', j_name = ''tests'', j_pipeline_id = ''9'', j_artifacts = Inr ''Z0''\<rparr>"

definition job2 :: "string \<Rightarrow> Job" where
  "job2 n = \<lparr>j_id = ''2'', j_name = n, j_pipeline_id = ''9'', j_artifacts = Inr ''Z1''\<rparr>"

definition project_with :: "Job \<Rightarrow> Project" where
  "project_with j =
     \<lparr>jobs = (\<lambda>i. if i = Some ''1'' then Inr job1 else if i = Some ''2'' then Inr j
                  else Inl GitlabError),
      pipelines = (\<lambda>i. if i = ''9'' then Inr \<lparr>pl_id = ''9'', pl_jobs = Inr [job1, j]\<rparr>
                       else Inl GitlabError)\<rparr>"

definition demo_project :: Project where
  "demo_project = project_with (job2 ''windows_msi_and_bosh_zip_x64-a7'')"

definition other_project :: Project where
  "other_project = project_with (job2 ''lint'')"

definition demo_cli :: CrashAnalyzerCLI where
  "demo_cli = select_project (CrashAnalyzerCLI_init (to_path ''/e'')) demo_project"

definition other_cli :: CrashAnalyzerCLI where
  "other_cli = select_project (CrashAnalyzerCLI_init (to_path ''/e'')) other_project"

text \<open>The cache holds a version for job \<open>1\<close> and no symbols for that version.\<close>

definition version_only_state :: state where
  "version_only_state =
     \<lparr>disk = [([''tmp''], Dir), ([''e''], Dir), ([''e'', ''artifacts''], Dir),
              ([''e'', ''artifacts'', ''datadog-agent''], Dir),
              ([''e'', ''artifacts'', ''datadog-agent'', ''1''], Dir),
              ([''e'', ''artifacts'', ''datadog-agent'', ''1'', ''version.txt''], File ''v'')],
      cwd = [''home''], ci_calls = [], tmp_seq = 0, tmp_dir = [''tmp''], archives = []\<rparr>"

text \<open>The cache holds artifacts, with a debug archive, under the job name \<open>None\<close>.\<close>

definition none_job_state :: state where
  "none_job_state =
     \<lparr>disk = [([''tmp''], Dir), ([''e''], Dir), ([''e'', ''artifacts''], Dir),
              ([''e'', ''artifacts'', ''datadog-agent''], Dir),
              ([''e'', ''artifacts'', ''datadog-agent'', ''None''], Dir),
              ([''e'', ''artifacts'', ''datadog-agent'', ''None'', ''artifacts''], Dir),
              ([''e'', ''artifacts'', ''datadog-agent'', ''None'', ''artifacts'', ''w.debug.zip''],
               File ''Z'')],
      cwd = [''home''], ci_calls = [], tmp_seq = 0, tmp_dir = [''tmp''],
      archives = [(''Z'', [ZipInfo ''bin/agent.exe.debug'' ''S''])]\<rparr>"

text \<open>A directory \<open>/src\<close> with one symbol file, and nothing else.\<close>

definition src_state :: state where
  "src_state =
     \<lparr>disk = [([''src''], Dir), ([''src'', ''agent.exe.debug''], File ''S'')],
      cwd = [''home''], ci_calls = [], tmp_seq = 0, tmp_dir = [''tmp''], archives = []\<rparr>"

text \<open>
  An archive at \<open>/z\<close> with two symbol files of the same name in different
  directories and one other file, and an empty directory \<open>/out\<close>.
\<close>

definition zip_state :: state where
  "zip_state =
     \<lparr>disk = [([''out''], Dir), ([''z''], File ''Z'')],
      cwd = [''home''], ci_calls = [], tmp_seq = 0, tmp_dir = [''tmp''],
      archives = [(''Z'', [ZipInfo ''a/x.exe.debug'' ''A'', ZipInfo ''r.txt'' ''T'',
                           ZipInfo ''b/c/x.exe.debug'' ''B''])]\<rparr>"

section \<open>Properties of the file system primitives\<close>

lemma lookup_put: "lookup (put d p n) q = (if q = p \<and> p \<noteq> [] then Some n else lookup d q)"
  by (simp add: lookup_def put_def update_conv')

lemma lookup_root [simp]: "lookup d [] = Some Dir"
  by (simp add: lookup_def)

lemma mkdir_from_frame:
  "mkdir_from pre xs d = Inr d' \<Longrightarrow> \<not> (\<exists>ys. ys \<noteq> [] \<and> prefix ys xs \<and> q = pre @ ys) \<Longrightarrow>
   lookup d' q = lookup d q"
proof (induction pre xs d arbitrary: d' rule: mkdir_from.induct)
  case (1 pre d)
  then show ?case by simp
next
  case (2 pre x xs d)
  have q1: "q \<noteq> pre @ [x]"
    using "2.prems"(2) by (auto dest: spec [of _ "[x]"])
  have q2: "\<not> (\<exists>ys. ys \<noteq> [] \<and> prefix ys xs \<and> q = (pre @ [x]) @ ys)"
  proof
    assume "\<exists>ys. ys \<noteq> [] \<and> prefix ys xs \<and> q = (pre @ [x]) @ ys"
    then obtain ys where "ys \<noteq> []" "prefix ys xs" "q = (pre @ [x]) @ ys" by blast
    then have "x # ys \<noteq> [] \<and> prefix (x # ys) (x # xs) \<and> q = pre @ (x # ys)" by simp
    with "2.prems"(2) show False by blast
  qed
  show ?case
  proof (cases "lookup d (pre @ [x])")
    case None
    with "2.prems"(1) have "mkdir_from (pre @ [x]) xs (put d (pre @ [x]) Dir) = Inr d'" by simp
    from "2.IH"(1) [OF None this q2] show ?thesis using q1 by (simp add: lookup_put)
  next
    case (Some n)
    show ?thesis
    proof (cases n)
      case (File b)
      with Some "2.prems"(1) show ?thesis by simp
    next
      case Dir
      with Some "2.prems"(1) have "mkdir_from (pre @ [x]) xs d = Inr d'" by simp
      from "2.IH"(2) [OF Some Dir this q2] show ?thesis .
    qed
  qed
qed

lemma mkdir_from_dirs:
  "mkdir_from pre xs d = Inr d' \<Longrightarrow> ys \<noteq> [] \<Longrightarrow> prefix ys xs \<Longrightarrow> lookup d' (pre @ ys) = Some Dir"
proof (induction pre xs d arbitrary: d' ys rule: mkdir_from.induct)
  case (1 pre d)
  then show ?case by simp
next
  case (2 pre x xs d)
  from "2.prems"(2,3) obtain ys' where ys: "ys = x # ys'" and pre': "prefix ys' xs"
    by (cases ys) auto
  obtain d1 where d1: "mkdir_from (pre @ [x]) xs d1 = Inr d'" and l1: "lookup d1 (pre @ [x]) = Some Dir"
    and alt: "lookup d (pre @ [x]) = None \<and> d1 = put d (pre @ [x]) Dir \<or> lookup d (pre @ [x]) = Some Dir \<and> d1 = d"
    using "2.prems"(1) by (auto simp: lookup_put split: option.splits node.splits)
  show ?case
  proof (cases "ys' = []")
    case True
    have "\<not> (\<exists>zs. zs \<noteq> [] \<and> prefix zs xs \<and> pre @ [x] = (pre @ [x]) @ zs)" by simp
    from mkdir_from_frame [OF d1 this] l1 show ?thesis using ys True by simp
  next
    case False
    from alt show ?thesis
    proof
      assume a: "lookup d (pre @ [x]) = None \<and> d1 = put d (pre @ [x]) Dir"
      with d1 have "mkdir_from (pre @ [x]) xs (put d (pre @ [x]) Dir) = Inr d'" by simp
      from "2.IH"(1) [OF conjunct1 [OF a] this False pre'] show ?thesis using ys by simp
    next
      assume a: "lookup d (pre @ [x]) = Some Dir \<and> d1 = d"
      with d1 have "mkdir_from (pre @ [x]) xs d = Inr d'" by simp
      from "2.IH"(2) [OF conjunct1 [OF a] refl this False pre'] show ?thesis using ys by simp
    qed
  qed
qed

lemma mkdir_parents_dirs:
  "mkdir_parents p d = Inr d' \<Longrightarrow> prefix q p \<Longrightarrow> lookup d' q = Some Dir"
  using mkdir_from_dirs [of "[]" p d d' q] by (cases "q = []") (simp_all add: mkdir_parents_def)

lemma mkdir_parents_frame:
  "mkdir_parents p d = Inr d' \<Longrightarrow> \<not> prefix q p \<Longrightarrow> lookup d' q = lookup d q"
  using mkdir_from_frame [of "[]" p d d' q] by (auto simp: mkdir_parents_def)

lemma write_file_lookup:
  "write_file p b d = Inr d' \<Longrightarrow> lookup d' q = (if q = p then Some (File b) else lookup d q)"
  by (auto simp: write_file_def lookup_put split: if_splits option.splits node.splits)

lemma write_file_parent:
  "write_file p b d = Inr d' \<Longrightarrow> p \<noteq> [] \<and> lookup d (butlast p) = Some Dir"
  by (auto simp: write_file_def split: if_splits option.splits node.splits)

lemma abs_parts_parent:
  "parts p \<noteq> [] \<Longrightarrow> abs_parts s (path_parent p) = butlast (abs_parts s p)"
  by (simp add: abs_parts_def path_parent_def butlast_append)

lemma abs_parts_update [simp]:
  "abs_parts (s\<lparr>disk := d\<rparr>) p = abs_parts s p"
  "abs_parts (s\<lparr>ci_calls := c\<rparr>) p = abs_parts s p"
  "abs_parts (s\<lparr>tmp_seq := n\<rparr>) p = abs_parts s p"
  by (simp_all add: abs_parts_def)

lemma PathStore_add_Inr:
  assumes "PathStore_add self k b s = (Inr u, s')"
  defines "fp \<equiv> joinpath (store_path self) (to_path k)"
  obtains d1 d2 where
    "mkdir_parents (abs_parts s (path_parent fp)) (disk s) = Inr d1"
    "write_file (abs_parts s fp) b d1 = Inr d2"
    "s' = s\<lparr>disk := d2\<rparr>"
  using assms
  by (auto simp: PathStore_add_def Let_def bind_def path_mkdir_def path_write_bytes_def
      fs_op_def split: sum.splits prod.splits)

lemma PathStore_get_directory_eq:
  "PathStore_get_directory self k s =
     (Inr (if lookup (disk s) (abs_parts s (joinpath (store_path self) (to_path k))) \<noteq> None
           then Some (joinpath (store_path self) (to_path k)) else None), s)"
  by (simp add: PathStore_get_directory_def Let_def bind_def path_exists_def return_def)

lemma PathStore_get_state: "snd (PathStore_get self k s) = s"
  by (simp add: PathStore_get_def Let_def bind_def path_exists_def path_read_bytes_def return_def
      split: option.splits node.splits)

lemma getattr_setattr: "getattr (setattr h a v) a = Some v"
  by (cases a) (simp_all add: getattr_def setattr_def)

lemma get_text_property_state: "snd (get_text_property h a s) = s"
proof (cases "getattr h a")
  case (Some v)
  then show ?thesis by (simp add: get_text_property_def return_def)
next
  case None
  obtain r where r: "PathStore_get (a_path_store h) (Artifacts_key h @ ''/'' @ attr_name a @ ''.txt'') s = (r, s)"
    using PathStore_get_state [of "a_path_store h" _ s] by (metis prod.collapse)
  show ?thesis
    using None r
    by (auto simp: get_text_property_def bind_def return_def raise_def lift_result_def decode_utf8_def
        Let_def split: sum.splits option.splits)
qed

lemma get_text_property_cached:
  assumes "get_text_property h a s = (Inr (Some v, h1), s1)"
  shows "getattr h1 a = Some v"
proof (cases "getattr h a")
  case (Some w)
  with assms show ?thesis by (simp add: get_text_property_def return_def)
next
  case None
  obtain r where r: "PathStore_get (a_path_store h) (Artifacts_key h @ ''/'' @ attr_name a @ ''.txt'') s = (r, s)"
    using PathStore_get_state [of "a_path_store h" _ s] by (metis prod.collapse)
  show ?thesis
    using None r assms
    by (auto simp: get_text_property_def bind_def return_def raise_def lift_result_def decode_utf8_def
        Let_def getattr_setattr split: sum.splits option.splits if_splits)
qed

lemma get_text_property_again:
  "getattr h a = Some v \<Longrightarrow> get_text_property h a s = (Inr (Some v, h), s)"
  by (simp add: get_text_property_def return_def)

lemma mkdtemp_loop_ci_calls: "ci_calls (snd (mkdtemp_loop n s)) = ci_calls s"
  by (induction n arbitrary: s) (auto simp: Let_def split: option.splits node.splits)

lemma TemporaryDirectory_raise_ci_calls:
  "ci_calls (snd (TemporaryDirectory (\<lambda>d. raise e) s)) = ci_calls s"
  using mkdtemp_loop_ci_calls [of TMP_MAX s]
  by (auto simp: TemporaryDirectory_def mkdtemp_def raise_def split: prod.splits sum.splits)

lemma resolve_symbols_unbound_ci_calls:
  "ci_calls (snd (resolve_symbols cli (Some v) None s)) = ci_calls s"
  by (simp add: resolve_symbols_def SymbolStore_get_def Let_def PathStore_get_directory_eq bind_def
      return_def TemporaryDirectory_raise_ci_calls)

section \<open>Properties of path parsing and of extraction\<close>

lemma split_sep_ne [simp]: "split_sep s \<noteq> []"
  by (induction s) (auto split: list.splits)

lemma split_sep_no_sep: "w \<in> set (split_sep s) \<Longrightarrow> CHR ''/'' \<notin> set w"
  by (induction s arbitrary: w) (auto split: list.splits if_splits)

lemma split_sep_plain: "CHR ''/'' \<notin> set w \<Longrightarrow> split_sep w = [w]"
  by (induction w) auto

lemma split_sep_append_plain:
  "CHR ''/'' \<notin> set b \<Longrightarrow> split_sep (a @ b) = butlast (split_sep a) @ [last (split_sep a) @ b]"
proof (induction a)
  case Nil
  then show ?case by (simp add: split_sep_plain)
next
  case (Cons c a)
  then show ?case
    by (cases "split_sep a"; cases "split_sep (a @ b)") (auto split: list.splits)
qed

lemma endswith_append: "endswith s suf \<Longrightarrow> \<exists>a. s = a @ suf"
  by (metis append_take_drop_id endswith_def)

lemma flat_name:
  assumes "endswith fn ''.exe.debug''"
  defines "bn \<equiv> path_name (to_path fn)"
  shows "CHR ''/'' \<notin> set bn" and "endswith bn ''.exe.debug''" and "bn = last (split_sep fn)"
    and "arcname_parts bn = [bn]" and "\<not> zip_is_dir (ZipInfo bn c)"
proof -
  from assms(1) obtain a where fn: "fn = a @ ''.exe.debug''" using endswith_append by blast
  have sp: "split_sep fn = butlast (split_sep a) @ [last (split_sep a) @ ''.exe.debug'']"
    unfolding fn by (rule split_sep_append_plain) simp
  define l where "l = last (split_sep a) @ ''.exe.debug''"
  have l_last: "last (split_sep fn) = l" by (simp add: sp l_def)
  have l_ok: "l \<noteq> [] \<and> l \<noteq> ''.''" by (auto simp: l_def)
  have "parts (to_path fn) = filter (\<lambda>w. w \<noteq> [] \<and> w \<noteq> ''.'') (butlast (split_sep a)) @ [l]"
    using l_ok by (simp add: to_path_def sp l_def)
  then show bn: "bn = last (split_sep fn)"
    by (simp add: bn_def path_name_def l_last)
  have "l \<in> set (split_sep fn)" by (simp add: sp l_def)
  then show nosep: "CHR ''/'' \<notin> set bn" using split_sep_no_sep bn l_last by metis
  show e: "endswith bn ''.exe.debug''"
    by (simp add: bn l_last l_def endswith_def)
  have "bn \<noteq> [] \<and> bn \<noteq> ''.'' \<and> bn \<noteq> ''..''"
    using bn l_last by (auto simp: l_def)
  then show "arcname_parts bn = [bn]"
    using nosep by (simp add: arcname_parts_def split_sep_plain)
  have "last bn = CHR ''g''" using bn l_last by (simp add: l_def)
  moreover have "bn \<noteq> []" using bn l_last l_ok by simp
  ultimately show "\<not> zip_is_dir (ZipInfo bn c)"
    using nosep by (auto simp: zip_is_dir_def endswith_def dest!: arg_cong [where f = last] )
qed

lemma split_sep_single: "split_sep s = [a] \<Longrightarrow> a = s"
proof (induction s arbitrary: a)
  case Nil
  then show ?case by simp
next
  case (Cons c s)
  then show ?case
    by (cases "split_sep s") (auto split: if_splits)
qed

lemma split_sep_last_suffix: "suffix (last (split_sep s)) s"
proof (induction s)
  case Nil
  then show ?case by simp
next
  case (Cons c s)
  show ?case
  proof (cases "split_sep s")
    case Nil
    then show ?thesis by simp
  next
    case (Cons w ws)
    show ?thesis
    proof (cases "c = CHR ''/''")
      case True
      with Cons.IH show ?thesis by (simp add: suffix_Cons)
    next
      case False
      show ?thesis
      proof (cases "ws = []")
        case True
        with Cons have "w = s" by (simp add: split_sep_single)
        with Cons True False show ?thesis by simp
      next
        case wne: False
        with Cons False Cons.IH show ?thesis by (simp add: suffix_Cons)
      qed
    qed
  qed
qed

lemma extract_member_flat_lookup:
  assumes "endswith fn ''.exe.debug''"
      and "extract_member (ZipInfo (path_name (to_path fn)) c) out d = Inr d2"
      and "\<not> prefix q out"
  shows "lookup d2 q = (if q = out @ [path_name (to_path fn)] then Some (File c) else lookup d q)"
proof -
  define bn where "bn = path_name (to_path fn)"
  note fl = flat_name [OF assms(1), folded bn_def]
  from assms(2) obtain d1 where
    d1: "(if lookup d out = None then mkdir_parents out d else Inr d) = Inr d1" and
    wr: "write_file (out @ [bn]) c d1 = Inr d2"
    using fl(4) fl(5) [of c]
    by (auto simp: extract_member_def Let_def bn_def [symmetric] butlast_snoc split: sum.splits
        cong: if_cong)
  have "lookup d1 q = lookup d q"
    using d1 assms(3) by (auto simp: mkdir_parents_frame split: if_splits)
  with write_file_lookup [OF wr, of q] show ?thesis by (simp add: bn_def)
qed

lemma ZipFile_extract_Inr:
  assumes "ZipFile_extract m pth s = (Inr u, s1)"
  obtains d where "extract_member m (abs_parts s (to_path pth)) (disk s) = Inr d" "s1 = s\<lparr>disk := d\<rparr>"
  using assms by (auto simp: ZipFile_extract_def fs_op_def split: sum.splits)

lemma extract_symbols_loop_lookup:
  assumes "extract_symbols_loop z output_dir s = (Inr (), s')"
      and "\<not> prefix q (abs_parts s (to_path output_dir))"
  shows "lookup (disk s') q =
     (if filter (\<lambda>i. endswith (filename i) ''.exe.debug'' \<and>
                     abs_parts s (to_path output_dir) @ [path_name (to_path (filename i))] = q) z = []
      then lookup (disk s) q
      else Some (File (content (last (filter (\<lambda>i. endswith (filename i) ''.exe.debug'' \<and>
                     abs_parts s (to_path output_dir) @ [path_name (to_path (filename i))] = q) z)))))"
  using assms
proof (induction z arbitrary: s)
  case Nil
  then show ?case by (simp add: return_def)
next
  case (Cons i z)
  show ?case
  proof (cases "endswith (filename i) ''.exe.debug''")
    case False
    with Cons.prems have "extract_symbols_loop z output_dir s = (Inr (), s')" by simp
    from Cons.IH [OF this Cons.prems(2)] False show ?thesis by simp
  next
    case True
    from Cons.prems(1) True obtain s1 where
      ex: "ZipFile_extract (ZipInfo (path_name (to_path (filename i))) (content i)) output_dir s = (Inr (), s1)"
      and rest: "extract_symbols_loop z output_dir s1 = (Inr (), s')"
      by (auto simp: bind_def split: sum.splits prod.splits)
    from ex obtain d where
      d: "extract_member (ZipInfo (path_name (to_path (filename i))) (content i))
            (abs_parts s (to_path output_dir)) (disk s) = Inr d"
      and s1: "s1 = s\<lparr>disk := d\<rparr>"
      by (rule ZipFile_extract_Inr)
    have abs: "abs_parts s1 (to_path output_dir) = abs_parts s (to_path output_dir)"
      by (simp add: s1)
    have step: "lookup d q =
        (if q = abs_parts s (to_path output_dir) @ [path_name (to_path (filename i))]
         then Some (File (content i)) else lookup (disk s) q)"
      by (rule extract_member_flat_lookup [OF True d Cons.prems(2)])
    from Cons.prems(2) abs have "\<not> prefix q (abs_parts s1 (to_path output_dir))" by simp
    from Cons.IH [OF rest this] show ?thesis
      using True step by (auto simp: abs s1)
  qed
qed

lemma ZipFile_state: "ZipFile p s = (r, s0) \<Longrightarrow> s0 = s"
  by (auto simp: ZipFile_def bind_def path_read_bytes_def split: option.splits node.splits)

lemma extract_symbols_loop_cwd:
  "extract_symbols_loop z output_dir s = (r, s') \<Longrightarrow> abs_parts s' p = abs_parts s p"
proof (induction z arbitrary: s)
  case Nil
  then show ?case by (simp add: return_def)
next
  case (Cons i z)
  show ?case
  proof (cases "endswith (filename i) ''.exe.debug''")
    case False
    with Cons show ?thesis by simp
  next
    case True
    obtain r1 s1 where ex: "ZipFile_extract (ZipInfo (path_name (to_path (filename i))) (content i)) output_dir s = (r1, s1)"
      by (cases "ZipFile_extract (ZipInfo (path_name (to_path (filename i))) (content i)) output_dir s")
    then have a1: "abs_parts s1 p = abs_parts s p"
      by (auto simp: ZipFile_extract_def fs_op_def split: sum.splits)
    show ?thesis
    proof (cases r1)
      case (Inl e)
      with Cons.prems True ex a1 show ?thesis by (simp add: bind_def)
    next
      case (Inr u)
      with Cons.prems True ex have "extract_symbols_loop z output_dir s1 = (r, s')"
        by (simp add: bind_def)
      from Cons.IH [OF this] a1 show ?thesis by simp
    qed
  qed
qed


lemma zip_state_ZipFile:
  "ZipFile (to_path ''/z'') zip_state
     = (Inr [ZipInfo ''a/x.exe.debug'' ''A'', ZipInfo ''r.txt'' ''T'', ZipInfo ''b/c/x.exe.debug'' ''B''],
        zip_state)"
  by code_simp

lemma zip_state_extract:
  "extract_agent_symbols (to_path ''/z'') ''/out'' zip_state
     = (Inr (), zip_state\<lparr>disk := [([''out''], Dir), ([''z''], File ''Z''),
                                    ([''out'', ''x.exe.debug''], File ''B'')]\<rparr>)"
  by code_simp


lemma zip_names:
  "path_name (to_path ''a/x.exe.debug'') = ''x.exe.debug''"
  "path_name (to_path ''b/c/x.exe.debug'') = ''x.exe.debug''"
  by code_simp+

lemma zip_suffixes:
  "endswith ''a/x.exe.debug'' ''.exe.debug''"
  "endswith ''b/c/x.exe.debug'' ''.exe.debug''"
  "\<not> endswith ''r.txt'' ''.exe.debug''"
  by code_simp+

section \<open>Claims about PathStore\<close>

text \<open>
  C6. Round trip of the Path Store: whenever \<open>add(k, b)\<close> returns, a \<open>get(k)\<close> executed
  in the state it leaves returns exactly \<open>b\<close> and changes nothing, whatever was stored
  at the key before; and every proper ancestor of the blob's path is then a directory.
\<close>

theorem PathStore_add_get_roundtrip:
  assumes "PathStore_add self k b s = (Inr (), s')"
  shows "PathStore_get self k s' = (Inr (Some b), s') \<and>
         (\<forall>q. strict_prefix q (abs_parts s' (joinpath (store_path self) (to_path k)))
              \<longrightarrow> lookup (disk s') q = Some Dir)"
proof -
  define fp where "fp = joinpath (store_path self) (to_path k)"
  from assms obtain d1 d2 where
    mk: "mkdir_parents (abs_parts s (path_parent fp)) (disk s) = Inr d1" and
    wr: "write_file (abs_parts s fp) b d1 = Inr d2" and
    s': "s' = s\<lparr>disk := d2\<rparr>"
    unfolding fp_def by (rule PathStore_add_Inr)
  have abs_eq: "abs_parts s' fp = abs_parts s fp"
    by (simp add: s' abs_parts_def)
  have ne: "abs_parts s fp \<noteq> []"
    using write_file_parent [OF wr] by simp
  have here: "lookup d2 (abs_parts s fp) = Some (File b)"
    using write_file_lookup [OF wr] by simp
  have get: "PathStore_get self k s' = (Inr (Some b), s')"
    using here abs_eq
    by (simp add: PathStore_get_def Let_def bind_def path_exists_def path_read_bytes_def
        return_def s' fp_def [symmetric])
  have parts_ne: "parts fp \<noteq> []"
  proof
    assume e: "parts fp = []"
    then have "path_parent fp = fp" by (cases fp) (simp add: path_parent_def)
    with mk have "lookup d1 (abs_parts s fp) = Some Dir"
      by (simp add: mkdir_parents_dirs)
    with wr ne show False
      by (auto simp: write_file_def split: option.splits node.splits)
  qed
  have anc: "lookup d2 q = Some Dir" if q: "strict_prefix q (abs_parts s fp)" for q
  proof -
    from q ne have "prefix q (butlast (abs_parts s fp))"
      by (metis prefix_snoc strict_prefix_def append_butlast_last_id)
    then have "lookup d1 q = Some Dir"
      using mk abs_parts_parent [OF parts_ne] by (simp add: mkdir_parents_dirs)
    moreover from q have "q \<noteq> abs_parts s fp" by (simp add: strict_prefix_def)
    ultimately show ?thesis using write_file_lookup [OF wr] by simp
  qed
  show ?thesis using get anc abs_eq by (simp add: fp_def s')
qed

theorem PathStore_add_get_roundtrip_witness:
  "PathStore_get (PathStore_init ''/env'') ''a/b.txt''
     (snd (PathStore_add (PathStore_init ''/env'') ''a/b.txt'' ''new''
        (snd (PathStore_add (PathStore_init ''/env'') ''a/b.txt'' ''old'' demo_state))))
   = (Inr (Some ''new''),
      demo_state\<lparr>disk := [([''env''], Dir), ([''env'', ''a''], Dir),
                            ([''env'', ''a'', ''b.txt''], File ''new'')]\<rparr>)"
proof -
  have run: "PathStore_add (PathStore_init ''/env'') ''a/b.txt'' ''new''
        (snd (PathStore_add (PathStore_init ''/env'') ''a/b.txt'' ''old'' demo_state))
      = (Inr (), demo_state\<lparr>disk := [([''env''], Dir), ([''env'', ''a''], Dir),
                            ([''env'', ''a'', ''b.txt''], File ''new'')]\<rparr>)"
    by code_simp
  from PathStore_add_get_roundtrip [OF run] show ?thesis by (simp add: run)
qed

section \<open>Claims about symbol resolution\<close>

text \<open>
  C5. Fast path: when the Artifact Store has a handle for the job and the handle's
  \<open>version\<close> is set (the property yields a non-empty text), \<open>get_symbols_for_job_id\<close>
  makes no request to the CI provider: the record of requests is the same after the
  call as before it, whether the call returns a path or raises.
\<close>

theorem fast_path_no_ci_calls:
  assumes "ArtifactStore_get (cli_artifact_store cli) ''datadog-agent'' job_id s = (Inr (Some a), s1)"
      and "Artifacts_version a s1 = (Inr (Some v, a1), s2)"
      and "v \<noteq> []"
  shows "ci_calls (snd (get_symbols_for_job_id cli job_id s)) = ci_calls s"
proof -
  have s1: "s1 = s"
    using assms(1)
    by (auto simp: ArtifactStore_get_def Let_def PathStore_get_directory_eq bind_def return_def
        split: if_splits)
  have s2: "s2 = s1"
    using assms(2) get_text_property_state [of a Version s1] by (simp add: Artifacts_version_def)
  have again: "Artifacts_version a1 s = (Inr (Some v, a1), s)"
    using get_text_property_cached [of a Version s1 v a1 s2] assms(2)
    by (simp add: Artifacts_version_def get_text_property_again)
  have "get_symbols_for_job_id cli job_id s = resolve_symbols cli (Some v) None s"
    using assms again by (simp add: get_symbols_for_job_id_def bind_def s1 s2)
  then show ?thesis by (simp add: resolve_symbols_unbound_ci_calls)
qed

theorem fast_path_no_ci_calls_witness:
  "ArtifactStore_get (cli_artifact_store demo_cli) ''datadog-agent'' (Some ''1'') version_only_state
     = (Inr (Some (Artifacts_init ''datadog-agent'' (Some ''1'') (path_store (cli_artifact_store demo_cli)))),
        version_only_state) \<and>
   Artifacts_version (Artifacts_init ''datadog-agent'' (Some ''1'') (path_store (cli_artifact_store demo_cli)))
       version_only_state
     = (Inr (Some ''v'', (Artifacts_init ''datadog-agent'' (Some ''1'')
                            (path_store (cli_artifact_store demo_cli)))\<lparr>a_version := Some ''v''\<rparr>),
        version_only_state) \<and>
   ''v'' \<noteq> [] \<and>
   ci_calls (snd (get_symbols_for_job_id demo_cli (Some ''1'') version_only_state))
     = ci_calls version_only_state"
proof -
  have h1: "ArtifactStore_get (cli_artifact_store demo_cli) ''datadog-agent'' (Some ''1'') version_only_state
     = (Inr (Some (Artifacts_init ''datadog-agent'' (Some ''1'') (path_store (cli_artifact_store demo_cli)))),
        version_only_state)"
    by code_simp
  have h2: "Artifacts_version (Artifacts_init ''datadog-agent'' (Some ''1'') (path_store (cli_artifact_store demo_cli)))
       version_only_state
     = (Inr (Some ''v'', (Artifacts_init ''datadog-agent'' (Some ''1'')
                            (path_store (cli_artifact_store demo_cli)))\<lparr>a_version := Some ''v''\<rparr>),
        version_only_state)"
    by code_simp
  have h3: "''v'' \<noteq> []" by simp
  from fast_path_no_ci_calls [OF h1 h2 h3] h1 h2 show ?thesis by simp
qed

text \<open>
  C1. On the fast path the local variable \<open>debug_zip\<close> is never assigned. When the
  handle of job \<open>1\<close> has its version set and the Symbol Store has nothing for that
  version, \<open>get_symbols_for_job_id\<close> raises \<open>UnboundLocalError\<close>: nothing is extracted
  and nothing is added to the Symbol Store.
\<close>

theorem fast_path_missing_symbols_raises:
  "fst (SymbolStore_get (cli_symbol_store demo_cli) ''v'' version_only_state) = Inr None \<and>
   fst (get_symbols_for_job_id demo_cli (Some ''1'') version_only_state) = Inl UnboundLocalError \<and>
   fst (SymbolStore_get (cli_symbol_store demo_cli) ''v''
          (snd (get_symbols_for_job_id demo_cli (Some ''1'') version_only_state))) = Inr None"
  by code_simp

text \<open>
  C3. When no listed job has the package-job name, \<open>get_package_job_id\<close> returns
  \<open>None\<close> without raising, and \<open>get_symbols_for_job_id\<close> goes on with \<open>None\<close> as the
  package job: with artifacts cached under the job name \<open>None\<close> it returns symbols
  made from them.
\<close>

theorem missing_package_job_not_reported:
  "fst (get_package_job_id other_project (Some ''1'') None none_job_state) = Inr None \<and>
   fst (get_symbols_for_job_id other_cli (Some ''1'') none_job_state)
     = Inr (Path True [''e'', ''symbols'', ''w'', ''symbols''])"
  by code_simp

section \<open>Claims about SymbolStore\<close>

text \<open>
  C4. For the relative root \<open>store\<close>, \<open>SymbolStore.add\<close> returns \<open>store/1/symbols\<close>, but
  nothing exists at that path afterwards: the symbols are stored under
  \<open>store/store/1/symbols\<close>, and that other path is what \<open>SymbolStore.get\<close> returns.
\<close>

theorem relative_root_stored_elsewhere:
  "fst (SymbolStore_add (PathStore_init ''store'') ''1'' ''/src'' src_state)
     = Inr (Path False [''store'', ''1'', ''symbols'']) \<and>
   fst (path_exists (Path False [''store'', ''1'', ''symbols''])
          (snd (SymbolStore_add (PathStore_init ''store'') ''1'' ''/src'' src_state))) = Inr False \<and>
   fst (path_read_bytes (Path False [''store'', ''store'', ''1'', ''symbols'', ''agent.exe.debug''])
          (snd (SymbolStore_add (PathStore_init ''store'') ''1'' ''/src'' src_state))) = Inr ''S'' \<and>
   fst (SymbolStore_get (PathStore_init ''store'') ''1''
          (snd (SymbolStore_add (PathStore_init ''store'') ''1'' ''/src'' src_state)))
     = Inr (Some (Path False [''store'', ''store'', ''1'', ''symbols'']))"
  by code_simp

section \<open>Claims about extract_agent_symbols\<close>

text \<open>
  C9. When \<open>extract_agent_symbols\<close> returns, every entry of the archive whose name ends
  in \<open>.exe.debug\<close> has a file at the output directory under its base name: the part of
  the entry's name after the last separator, which contains no separator. The file
  holds the contents of an entry with that base name. Nothing else is written: every
  path that is neither such a file nor the output directory or one of its ancestors is
  as it was, so entries with other names are not extracted.
\<close>

theorem extract_agent_symbols_flattens:
  assumes "ZipFile zip_path s = (Inr z, s)"
      and "extract_agent_symbols zip_path output_dir s = (Inr (), s')"
  shows "(\<forall>i\<in>set z. endswith (filename i) ''.exe.debug'' \<longrightarrow>
            CHR ''/'' \<notin> set (path_name (to_path (filename i))) \<and>
            suffix (path_name (to_path (filename i))) (filename i) \<and>
            (\<exists>j\<in>set z. endswith (filename j) ''.exe.debug'' \<and>
               path_name (to_path (filename j)) = path_name (to_path (filename i)) \<and>
               lookup (disk s') (abs_parts s (to_path output_dir) @ [path_name (to_path (filename i))])
                 = Some (File (content j)))) \<and>
         (\<forall>q. \<not> prefix q (abs_parts s (to_path output_dir)) \<and>
              (\<forall>i\<in>set z. endswith (filename i) ''.exe.debug'' \<longrightarrow>
                  q \<noteq> abs_parts s (to_path output_dir) @ [path_name (to_path (filename i))])
              \<longrightarrow> lookup (disk s') q = lookup (disk s) q)"
proof -
  define out where "out = abs_parts s (to_path output_dir)"
  define F where "F q = filter (\<lambda>i. endswith (filename i) ''.exe.debug'' \<and>
                     out @ [path_name (to_path (filename i))] = q) z" for q
  from assms have loop: "extract_symbols_loop z output_dir s = (Inr (), s')"
    by (simp add: extract_agent_symbols_def bind_def)
  have look: "lookup (disk s') q = (if F q = [] then lookup (disk s) q
                                    else Some (File (content (last (F q)))))"
    if "\<not> prefix q out" for q
    using extract_symbols_loop_lookup [OF loop that [unfolded out_def]]
    by (simp add: F_def out_def)
  have one: "CHR ''/'' \<notin> set (path_name (to_path (filename i))) \<and>
            suffix (path_name (to_path (filename i))) (filename i) \<and>
            (\<exists>j\<in>set z. endswith (filename j) ''.exe.debug'' \<and>
               path_name (to_path (filename j)) = path_name (to_path (filename i)) \<and>
               lookup (disk s') (out @ [path_name (to_path (filename i))]) = Some (File (content j)))"
    if i: "i \<in> set z" and e: "endswith (filename i) ''.exe.debug''" for i
  proof -
    define q where "q = out @ [path_name (to_path (filename i))]"
    have np: "\<not> prefix q out" by (simp add: q_def)
    have iF: "i \<in> set (F q)" using i e by (simp add: F_def q_def)
    then have ne: "F q \<noteq> []" by auto
    then have "last (F q) \<in> set (F q)" by simp
    then have j: "last (F q) \<in> set z" "endswith (filename (last (F q))) ''.exe.debug''"
      "path_name (to_path (filename (last (F q)))) = path_name (to_path (filename i))"
      by (auto simp: F_def q_def)
    have "lookup (disk s') q = Some (File (content (last (F q))))"
      using look [OF np] ne by simp
    with j have ex: "\<exists>j\<in>set z. endswith (filename j) ''.exe.debug'' \<and>
               path_name (to_path (filename j)) = path_name (to_path (filename i)) \<and>
               lookup (disk s') q = Some (File (content j))" by blast
    have "path_name (to_path (filename i)) = last (split_sep (filename i))"
      by (rule flat_name(3) [OF e])
    moreover have "suffix (last (split_sep (filename i))) (filename i)"
      by (rule split_sep_last_suffix)
    ultimately have "suffix (path_name (to_path (filename i))) (filename i)" by simp
    with flat_name(1) [OF e] ex show ?thesis by (simp add: q_def)
  qed
  have frame: "lookup (disk s') q = lookup (disk s) q"
    if "\<not> prefix q out" and "\<forall>i\<in>set z. endswith (filename i) ''.exe.debug'' \<longrightarrow>
                  q \<noteq> out @ [path_name (to_path (filename i))]" for q
  proof -
    have "F q = []" using that(2) by (auto simp: F_def filter_empty_conv)
    with look [OF that(1)] show ?thesis by simp
  qed
  show ?thesis using one frame unfolding out_def by blast
qed

theorem extract_agent_symbols_flattens_witness:
  "ZipFile (to_path ''/z'') zip_state
     = (Inr [ZipInfo ''a/x.exe.debug'' ''A'', ZipInfo ''r.txt'' ''T'', ZipInfo ''b/c/x.exe.debug'' ''B''],
        zip_state) \<and>
   fst (extract_agent_symbols (to_path ''/z'') ''/out'' zip_state) = Inr () \<and>
   lookup (disk (snd (extract_agent_symbols (to_path ''/z'') ''/out'' zip_state)))
      [''out'', ''x.exe.debug''] \<in> {Some (File ''A''), Some (File ''B'')} \<and>
   lookup (disk (snd (extract_agent_symbols (to_path ''/z'') ''/out'' zip_state)))
      [''out'', ''r.txt''] = None"
proof -
  note t = extract_agent_symbols_flattens [OF zip_state_ZipFile zip_state_extract]
  have a: "abs_parts zip_state (to_path ''/out'') = [''out'']" by code_simp
  from t [THEN conjunct1, THEN bspec, of "ZipInfo ''a/x.exe.debug'' ''A''"]
  have 1: "lookup [([''out''], Dir), ([''z''], File ''Z''), ([''out'', ''x.exe.debug''], File ''B'')]
      [''out'', ''x.exe.debug''] \<in> {Some (File ''A''), Some (File ''B'')}"
    using a zip_names zip_suffixes by auto
  from t [THEN conjunct2, THEN spec, of "[''out'', ''r.txt'']"]
  have 2: "lookup [([''out''], Dir), ([''z''], File ''Z''), ([''out'', ''x.exe.debug''], File ''B'')]
      [''out'', ''r.txt''] = lookup (disk zip_state) [''out'', ''r.txt'']"
    using a zip_names zip_suffixes by auto
  have "lookup (disk zip_state) [''out'', ''r.txt''] = None" by code_simp
  with 1 2 show ?thesis by (simp add: zip_state_ZipFile zip_state_extract)
qed

text \<open>
  C10. Entries whose names end in \<open>.exe.debug\<close> and share a base name are written to
  the same path, and the file there holds the contents of the last of them in archive
  order. If nothing was below the output directory before, then what is below it
  afterwards is exactly one file for each base name.
\<close>

theorem extract_agent_symbols_last_wins:
  assumes "ZipFile zip_path s = (Inr z, s)"
      and "extract_agent_symbols zip_path output_dir s = (Inr (), s')"
  shows "(\<forall>i\<in>set z. endswith (filename i) ''.exe.debug'' \<longrightarrow>
            lookup (disk s') (abs_parts s (to_path output_dir) @ [path_name (to_path (filename i))])
              = Some (File (content (last (filter
                   (\<lambda>j. endswith (filename j) ''.exe.debug'' \<and>
                        path_name (to_path (filename j)) = path_name (to_path (filename i))) z))))) \<and>
         ((\<forall>q. strict_prefix (abs_parts s (to_path output_dir)) q \<longrightarrow> lookup (disk s) q = None) \<longrightarrow>
          (\<forall>q. strict_prefix (abs_parts s (to_path output_dir)) q \<longrightarrow>
               (lookup (disk s') q \<noteq> None) =
               (\<exists>i\<in>set z. endswith (filename i) ''.exe.debug'' \<and>
                   q = abs_parts s (to_path output_dir) @ [path_name (to_path (filename i))])))"
proof -
  define out where "out = abs_parts s (to_path output_dir)"
  define F where "F q = filter (\<lambda>i. endswith (filename i) ''.exe.debug'' \<and>
                     out @ [path_name (to_path (filename i))] = q) z" for q
  from assms have loop: "extract_symbols_loop z output_dir s = (Inr (), s')"
    by (simp add: extract_agent_symbols_def bind_def)
  have look: "lookup (disk s') q = (if F q = [] then lookup (disk s) q
                                    else Some (File (content (last (F q)))))"
    if "\<not> prefix q out" for q
    using extract_symbols_loop_lookup [OF loop that [unfolded out_def]]
    by (simp add: F_def out_def)
  have last_one: "lookup (disk s') (out @ [path_name (to_path (filename i))])
              = Some (File (content (last (filter
                   (\<lambda>j. endswith (filename j) ''.exe.debug'' \<and>
                        path_name (to_path (filename j)) = path_name (to_path (filename i))) z))))"
    if i: "i \<in> set z" and e: "endswith (filename i) ''.exe.debug''" for i
  proof -
    define q where "q = out @ [path_name (to_path (filename i))]"
    have np: "\<not> prefix q out" by (simp add: q_def)
    have "i \<in> set (F q)" using i e by (simp add: F_def q_def)
    then have ne: "F q \<noteq> []" by auto
    have "F q = filter (\<lambda>j. endswith (filename j) ''.exe.debug'' \<and>
                        path_name (to_path (filename j)) = path_name (to_path (filename i))) z"
      by (simp add: F_def q_def)
    with look [OF np] ne show ?thesis by (simp add: q_def)
  qed
  have only: "(lookup (disk s') q \<noteq> None) =
               (\<exists>i\<in>set z. endswith (filename i) ''.exe.debug'' \<and>
                   q = out @ [path_name (to_path (filename i))])"
    if fresh: "\<forall>q. strict_prefix out q \<longrightarrow> lookup (disk s) q = None" and q: "strict_prefix out q" for q
  proof -
    from q have np: "\<not> prefix q out" by (auto simp: strict_prefix_def)
    have "(F q \<noteq> []) = (\<exists>i\<in>set z. endswith (filename i) ''.exe.debug'' \<and>
                   q = out @ [path_name (to_path (filename i))])"
      by (auto simp: F_def filter_empty_conv)
    with look [OF np] fresh q show ?thesis by auto
  qed
  show ?thesis using last_one only unfolding out_def by blast
qed


theorem extract_agent_symbols_last_wins_witness:
  "ZipFile (to_path ''/z'') zip_state
     = (Inr [ZipInfo ''a/x.exe.debug'' ''A'', ZipInfo ''r.txt'' ''T'', ZipInfo ''b/c/x.exe.debug'' ''B''],
        zip_state) \<and>
   fst (extract_agent_symbols (to_path ''/z'') ''/out'' zip_state) = Inr () \<and>
   lookup (disk (snd (extract_agent_symbols (to_path ''/z'') ''/out'' zip_state)))
      [''out'', ''x.exe.debug''] = Some (File ''B'')"
proof -
  note t = extract_agent_symbols_last_wins [OF zip_state_ZipFile zip_state_extract]
  have a: "abs_parts zip_state (to_path ''/out'') = [''out'']" by code_simp
  from t [THEN conjunct1, THEN bspec, of "ZipInfo ''a/x.exe.debug'' ''A''"]
  have "lookup [([''out''], Dir), ([''z''], File ''Z''), ([''out'', ''x.exe.debug''], File ''B'')]
      [''out'', ''x.exe.debug''] = Some (File ''B'')"
    using a zip_names zip_suffixes by simp
  then show ?thesis by (simp add: zip_state_ZipFile zip_state_extract)
qed

end
